theory Spec2Isabelle
  imports Main "HOL-Library.Sublist" "HOL-Library.Word"
begin

section \<open>Python values and exceptions\<close>

text \<open>
  \<^verbatim>\<open>json.load\<close> returns an arbitrary JSON value, and \<^verbatim>\<open>MinioConfig\<close> stores what it
  gets without looking at its type, so the fields of the object hold Python values:
  \<^verbatim>\<open>None\<close>, a bool, an (unbounded) int, a float, a str, a list or a dict with str keys.
  A dict is the list of its items in insertion order; its keys are pairwise different in
  Python, and every lookup goes through \<^const>\<open>map_of\<close>. A float is its IEEE 754
  binary64 bit pattern, of which only the test against zero is used.
\<close>

datatype pyval =
    PNone
  | PBool bool
  | PInt int
  | PFloat "64 word"
  | PStr string
  | PList "pyval list"
  | PDict "(string \<times> pyval) list"

text \<open>
  The exceptions that can leave the methods modelled here, one constructor per Python
  class, with the message where the source writes one. \<^verbatim>\<open>AttributeError\<close> carries the
  type name of the receiver and the attribute looked up.
\<close>

datatype error =
    ValueError string
  | FileNotFoundError string
  | OSError string
  | UnicodeDecodeError string
  | RecursionError string
  | EOFError
  | AttributeError string string
  | gaierror

text \<open>Truth value testing (\<^verbatim>\<open>bool(v)\<close>, \<^verbatim>\<open>not v\<close>, \<^verbatim>\<open>all([...])\<close>).\<close>

fun truthy :: "pyval \<Rightarrow> bool" where
  "truthy PNone = False"
| "truthy (PBool b) = b"
| "truthy (PInt i) = (i \<noteq> 0)"
| "truthy (PFloat w) = (take_bit 63 w \<noteq> 0)"
| "truthy (PStr s) = (s \<noteq> [])"
| "truthy (PList xs) = (xs \<noteq> [])"
| "truthy (PDict kvs) = (kvs \<noteq> [])"

fun type_name :: "pyval \<Rightarrow> string" where
  "type_name PNone = ''NoneType''"
| "type_name (PBool b) = ''bool''"
| "type_name (PInt i) = ''int''"
| "type_name (PFloat w) = ''float''"
| "type_name (PStr s) = ''str''"
| "type_name (PList xs) = ''list''"
| "type_name (PDict kvs) = ''dict''"

text \<open>\<^verbatim>\<open>obj.get(key, default)\<close>: only a dict has the method.\<close>

fun py_get :: "pyval \<Rightarrow> string \<Rightarrow> pyval \<Rightarrow> error + pyval" where
  "py_get (PDict kvs) k d = Inr (case map_of kvs k of None \<Rightarrow> d | Some v \<Rightarrow> v)"
| "py_get v k d = Inl (AttributeError (type_name v) ''get'')"

text \<open>\<^verbatim>\<open>list(obj.keys())\<close>: only a dict has the method.\<close>

fun py_keys :: "pyval \<Rightarrow> error + string list" where
  "py_keys (PDict kvs) = Inr (map fst kvs)"
| "py_keys v = Inl (AttributeError (type_name v) ''keys'')"

text \<open>
  \<^verbatim>\<open>s.replace(old, new)\<close> on a str: the occurrences of \<^verbatim>\<open>old\<close> are found from left to
  right, each search starting after the previous occurrence. For an empty \<^verbatim>\<open>old\<close>,
  \<^verbatim>\<open>new\<close> is put before every character and at the end.
\<close>

fun str_replace_ne :: "string \<Rightarrow> string \<Rightarrow> string \<Rightarrow> string" where
  "str_replace_ne [] old new = []"
| "str_replace_ne (c # cs) old new =
     (if old \<noteq> [] \<and> prefix old (c # cs)
      then new @ str_replace_ne (drop (length old) (c # cs)) old new
      else c # str_replace_ne cs old new)"

definition str_replace :: "string \<Rightarrow> string \<Rightarrow> string \<Rightarrow> string" where
  "str_replace s old new =
     (if old = [] then new @ concat (map (\<lambda>c. c # new) s) else str_replace_ne s old new)"

text \<open>\<^verbatim>\<open>obj.replace(old, new)\<close>: of the values JSON can give, only a str has the method.\<close>

fun py_replace :: "pyval \<Rightarrow> string \<Rightarrow> string \<Rightarrow> error + pyval" where
  "py_replace (PStr s) old new = Inr (PStr (str_replace s old new))"
| "py_replace v old new = Inl (AttributeError (type_name v) ''replace'')"

text \<open>\<^verbatim>\<open>sep.join(parts)\<close>, used to say what a replacement does to a string.\<close>

fun str_join :: "string \<Rightarrow> string list \<Rightarrow> string" where
  "str_join sep [] = []"
| "str_join sep [x] = x"
| "str_join sep (x # y # ys) = x @ sep @ str_join sep (y # ys)"


section \<open>The object and its surroundings\<close>

text \<open>
  A \<^verbatim>\<open>pathlib.Path\<close> is the string it prints as. \<^verbatim>\<open>Path(s)\<close> normalises the string it
  is given; the rule is that of the POSIX flavour: the string is cut at the slashes, empty
  components and the components \<^verbatim>\<open>.\<close> are dropped, a leading slash is kept (two leading
  slashes are kept as two, three or more as one), and the empty path prints as a dot.
\<close>

fun split_slash :: "string \<Rightarrow> string list" where
  "split_slash [] = [[]]"
| "split_slash (c # cs) =
     (if c = CHR ''/'' then [] # split_slash cs
      else (case split_slash cs of [] \<Rightarrow> [[c]] | x # xs \<Rightarrow> (c # x) # xs))"

definition Path :: "string \<Rightarrow> string" where
  "Path s =
     (let parts = filter (\<lambda>x. x \<noteq> [] \<and> x \<noteq> ''.'') (split_slash s);
          root = (if take 2 s = ''//'' \<and> take 3 s \<noteq> ''///'' then ''//''
                  else if take 1 s = ''/'' then ''/'' else []);
          shown = root @ str_join ''/'' parts
      in if shown = [] then ''.'' else shown)"

text \<open>The instance attributes set by \<^verbatim>\<open>__init__\<close>.\<close>

record MinioConfig =
  config_file_path :: string
  configs :: pyval
  endpoint_url :: pyval
  aws_access_key_id :: pyval
  aws_secret_access_key :: pyval
  region_name :: pyval
  signature_version :: pyval

definition MAC_HOSTNAME :: string where
  "MAC_HOSTNAME = ''Antons-MacBook-Pro-3.local''"

definition init :: "string \<Rightarrow> MinioConfig" where
  "init config_file =
     \<lparr> config_file_path = Path config_file, configs = PNone, endpoint_url = PNone,
       aws_access_key_id = PNone, aws_secret_access_key = PNone,
       region_name = PNone, signature_version = PNone \<rparr>"

text \<open>
  What \<^verbatim>\<open>open(path, 'r')\<close> followed by \<^verbatim>\<open>json.load(file)\<close> does for a path:
  \<^item> the file cannot be opened: \<^verbatim>\<open>OSError\<close> with its message;
  \<^item> the bytes of the file are not text in the encoding of \<^verbatim>\<open>open\<close>:
    \<^verbatim>\<open>file.read()\<close> raises \<^verbatim>\<open>UnicodeDecodeError\<close> with its message;
  \<^item> the decoder rejects the text: \<^verbatim>\<open>json.JSONDecodeError\<close> with its message;
  \<^item> the text has an integer literal with more digits than the interpreter converts:
    \<^verbatim>\<open>int\<close> raises a plain \<^verbatim>\<open>ValueError\<close>, whose message starts with
    \<^verbatim>\<open>Exceeds the limit (\<close> and goes on as given;
  \<^item> the text is nested too deeply: \<^verbatim>\<open>RecursionError\<close> with its message;
  \<^item> the decoder accepts the text and returns its value. It accepts more than JSON: the
    literals \<^verbatim>\<open>NaN\<close>, \<^verbatim>\<open>Infinity\<close> and \<^verbatim>\<open>-Infinity\<close> are decoded to floats.
  So the third outcome is not the same as the content being no valid JSON.
\<close>

datatype read_outcome =
    Open_failed string
  | Read_failed string
  | Decode_failed string
  | Digits_exceeded string
  | Nesting_exceeded string
  | Decoded pyval

text \<open>
  What \<^verbatim>\<open>int(input(...))\<close> does: the line typed is an integer, it is not (\<^verbatim>\<open>int\<close> raises
  \<^verbatim>\<open>ValueError\<close>, whose message ends with the \<^verbatim>\<open>repr\<close> of the line), or standard
  input is at its end.
\<close>

datatype prompt_outcome =
    Typed_int int
  | Typed_other string
  | No_input

text \<open>
  The file system and the console as \<^verbatim>\<open>load_config\<close> sees them. \<open>parent\<close> is
  \<^verbatim>\<open>Path.parent\<close> and \<open>glob_json\<close> is \<^verbatim>\<open>list(directory.glob('*.json'))\<close>.
  Output written with \<^verbatim>\<open>print\<close> is not modelled.
\<close>

record filesystem =
  path_exists :: "string \<Rightarrow> bool"
  parent :: "string \<Rightarrow> string"
  glob_json :: "string \<Rightarrow> string list"
  prompt_reply :: prompt_outcome
  json_of_file :: "string \<Rightarrow> read_outcome"

text \<open>
  The name service as \<^verbatim>\<open>adjust_endpoint_ip\<close> sees it: \<^verbatim>\<open>socket.gethostname()\<close>, and
  \<^verbatim>\<open>socket.gethostbyname(host)\<close>, which returns an address as a str or raises
  \<^verbatim>\<open>socket.gaierror\<close> (\<open>None\<close>).
\<close>

record network =
  gethostname :: string
  gethostbyname :: "string \<Rightarrow> string option"


section \<open>The error messages of the source\<close>

text \<open>
  Every failure the class signals itself is a \<^verbatim>\<open>ValueError\<close>; the message tells them
  apart. The names are those the specification gives to the four kinds.
  \<open>CHR 0x27\<close> is the single quote of the f-strings.
\<close>

definition ConfigFormatError :: "string \<Rightarrow> string \<Rightarrow> error" where
  "ConfigFormatError path e =
     ValueError (''Invalid JSON format in '' @ [CHR 0x27] @ path @ [CHR 0x27] @ '': '' @ e)"

definition NotLoadedError :: error where
  "NotLoadedError =
     ValueError ''Configuration file has not been loaded. Call 'load_config' first.''"

definition UnknownProfileError :: "string \<Rightarrow> error" where
  "UnknownProfileError machine_name =
     ValueError (''Machine '' @ [CHR 0x27] @ machine_name @ [CHR 0x27]
       @ '' not found in configuration.'')"

definition MissingAttributesError :: error where
  "MissingAttributesError = ValueError ''Configuration is missing required attributes.''"


section \<open>Loading the configuration\<close>

definition prompt_for_config_file :: "filesystem \<Rightarrow> MinioConfig \<Rightarrow> error + string" where
  "prompt_for_config_file fs self =
     (let available_files = glob_json fs (parent fs (config_file_path self)) in
      if available_files = []
      then Inl (FileNotFoundError
             (''No JSON configuration files found in '' @ parent fs (config_file_path self)))
      else
        (case prompt_reply fs of
           No_input \<Rightarrow> Inl EOFError
         | Typed_other r \<Rightarrow> Inl (ValueError (''invalid literal for int() with base 10: '' @ r))
         | Typed_int n \<Rightarrow>
             (let file_choice = n - 1 in
              if 0 \<le> file_choice \<and> file_choice < int (length available_files)
              then Inr (available_files ! nat file_choice)
              else Inl (ValueError
                     ''Invalid selection. Please select a valid number from the list.''))))"

definition get_valid_config_path :: "filesystem \<Rightarrow> MinioConfig \<Rightarrow> error + string" where
  "get_valid_config_path fs self =
     (if path_exists fs (config_file_path self) then Inr (config_file_path self)
      else prompt_for_config_file fs self)"

text \<open>
  \<^verbatim>\<open>read_config\<close> catches \<^verbatim>\<open>json.JSONDecodeError\<close> only and raises the format
  \<^verbatim>\<open>ValueError\<close> in its place; every other exception leaves the method as it is.
\<close>

definition read_config :: "filesystem \<Rightarrow> string \<Rightarrow> error + pyval" where
  "read_config fs path =
     (case json_of_file fs path of
        Open_failed m \<Rightarrow> Inl (OSError m)
      | Read_failed m \<Rightarrow> Inl (UnicodeDecodeError m)
      | Decode_failed e \<Rightarrow> Inl (ConfigFormatError path e)
      | Digits_exceeded m \<Rightarrow> Inl (ValueError (''Exceeds the limit ('' @ m))
      | Nesting_exceeded m \<Rightarrow> Inl (RecursionError m)
      | Decoded v \<Rightarrow> Inr v)"

text \<open>
  A method that assigns to attributes returns what it raised or returned together with
  the object as it is afterwards, so that the assignments made before an exception stay
  visible.
\<close>

definition load_config :: "filesystem \<Rightarrow> MinioConfig \<Rightarrow> (error + unit) \<times> MinioConfig" where
  "load_config fs self =
     (case get_valid_config_path fs self of
        Inl e \<Rightarrow> (Inl e, self)
      | Inr p \<Rightarrow>
          (let self1 = self\<lparr>config_file_path := p\<rparr> in
           case read_config fs p of
             Inl e \<Rightarrow> (Inl e, self1)
           | Inr v \<Rightarrow> (Inr (), self1\<lparr>configs := v\<rparr>)))"


section \<open>Selecting a machine\<close>

definition ensure_configs_loaded :: "MinioConfig \<Rightarrow> error + unit" where
  "ensure_configs_loaded self =
     (if \<not> truthy (configs self) then Inl NotLoadedError else Inr ())"

definition list_machines :: "MinioConfig \<Rightarrow> error + string list" where
  "list_machines self =
     (case ensure_configs_loaded self of
        Inl e \<Rightarrow> Inl e
      | Inr _ \<Rightarrow> py_keys (configs self))"

definition get_machine_config :: "MinioConfig \<Rightarrow> string \<Rightarrow> error + pyval" where
  "get_machine_config self machine_name =
     (case py_get (configs self) machine_name PNone of
        Inl e \<Rightarrow> Inl e
      | Inr config \<Rightarrow>
          if \<not> truthy config then Inl (UnknownProfileError machine_name) else Inr config)"

definition validate_attributes :: "MinioConfig \<Rightarrow> error + unit" where
  "validate_attributes self =
     (if \<not> list_all truthy
             [endpoint_url self, aws_access_key_id self, aws_secret_access_key self]
      then Inl MissingAttributesError else Inr ())"

definition set_connection_attributes ::
  "MinioConfig \<Rightarrow> pyval \<Rightarrow> (error + unit) \<times> MinioConfig" where
  "set_connection_attributes self config =
     (case py_get config ''endpoint_url'' PNone of
        Inl e \<Rightarrow> (Inl e, self)
      | Inr v1 \<Rightarrow>
     (let self1 = self\<lparr>endpoint_url := v1\<rparr> in
      case py_get config ''aws_access_key_id'' PNone of
        Inl e \<Rightarrow> (Inl e, self1)
      | Inr v2 \<Rightarrow>
     (let self2 = self1\<lparr>aws_access_key_id := v2\<rparr> in
      case py_get config ''aws_secret_access_key'' PNone of
        Inl e \<Rightarrow> (Inl e, self2)
      | Inr v3 \<Rightarrow>
     (let self3 = self2\<lparr>aws_secret_access_key := v3\<rparr> in
      case py_get config ''region_name'' (PStr ''us-east-1'') of
        Inl e \<Rightarrow> (Inl e, self3)
      | Inr v4 \<Rightarrow>
     (let self4 = self3\<lparr>region_name := v4\<rparr> in
      case py_get config ''signature_version'' (PStr ''s3v4'') of
        Inl e \<Rightarrow> (Inl e, self4)
      | Inr v5 \<Rightarrow>
     (let self5 = self4\<lparr>signature_version := v5\<rparr> in
      case validate_attributes self5 of
        Inl e \<Rightarrow> (Inl e, self5)
      | Inr _ \<Rightarrow> (Inr (), self5)))))))"

definition get_mac_ip :: "network \<Rightarrow> string option" where
  "get_mac_ip net = gethostbyname net MAC_HOSTNAME"

definition adjust_endpoint_ip :: "network \<Rightarrow> MinioConfig \<Rightarrow> (error + unit) \<times> MinioConfig" where
  "adjust_endpoint_ip net self =
     (let mac_ip = get_mac_ip net in
      case gethostbyname net (gethostname net) of
        None \<Rightarrow> (Inl gaierror, self)
      | Some current_ip \<Rightarrow>
          (case mac_ip of
             None \<Rightarrow> (Inr (), self)
           | Some mac \<Rightarrow>
               if mac \<noteq> [] \<and> current_ip \<noteq> mac \<and> truthy (endpoint_url self)
               then (case py_replace (endpoint_url self) mac current_ip of
                       Inl e \<Rightarrow> (Inl e, self)
                     | Inr v \<Rightarrow> (Inr (), self\<lparr>endpoint_url := v\<rparr>))
               else (Inr (), self)))"

definition select_machine ::
  "network \<Rightarrow> MinioConfig \<Rightarrow> string \<Rightarrow> (error + unit) \<times> MinioConfig" where
  "select_machine net self machine_name =
     (case ensure_configs_loaded self of
        Inl e \<Rightarrow> (Inl e, self)
      | Inr _ \<Rightarrow>
     (case get_machine_config self machine_name of
        Inl e \<Rightarrow> (Inl e, self)
      | Inr selected_config \<Rightarrow>
     (case set_connection_attributes self selected_config of
        (Inl e, self1) \<Rightarrow> (Inl e, self1)
      | (Inr _, self1) \<Rightarrow> adjust_endpoint_ip net self1)))"


section \<open>The specification's words\<close>

text \<open>
  The shape the specification gives to a configuration document: a JSON object whose
  values are all JSON objects (profile name to attribute object).
\<close>

fun is_object :: "pyval \<Rightarrow> bool" where
  "is_object (PDict kvs) = True"
| "is_object v = False"

fun spec_object_of_objects :: "pyval \<Rightarrow> bool" where
  "spec_object_of_objects (PDict kvs) = list_all (\<lambda>kv. is_object (snd kv)) kvs"
| "spec_object_of_objects v = False"

text \<open>
  What the specification calls valid JSON, as far as it shows in a decoded value: JSON has
  no literal for a NaN, and no number of JSON decodes to one, so a value with a NaN in it
  comes from a text that is not valid JSON. A float is a NaN when its exponent bits are all
  set and its fraction is not zero.
\<close>

definition is_nan :: "64 word \<Rightarrow> bool" where
  "is_nan w = (0x7FF0000000000000 < take_bit 63 w)"

fun spec_valid_json_value :: "pyval \<Rightarrow> bool" where
  "spec_valid_json_value (PFloat w) = (\<not> is_nan w)"
| "spec_valid_json_value (PList xs) = list_all spec_valid_json_value xs"
| "spec_valid_json_value (PDict kvs) = list_all (\<lambda>kv. spec_valid_json_value (snd kv)) kvs"
| "spec_valid_json_value v = True"

text \<open>
  The attribute values the specification expects of a resolved connection built from a
  profile, before any endpoint adjustment: the three required values as they are in the
  profile (\<^verbatim>\<open>None\<close> for a key the profile does not have), the two optional ones with
  their defaults.
\<close>

definition attribute :: "(string \<times> pyval) list \<Rightarrow> string \<Rightarrow> pyval \<Rightarrow> pyval" where
  "attribute attrs k d = (case map_of attrs k of None \<Rightarrow> d | Some v \<Rightarrow> v)"

definition attributes_of_profile :: "(string \<times> pyval) list \<Rightarrow> MinioConfig \<Rightarrow> MinioConfig" where
  "attributes_of_profile attrs self =
     self\<lparr> endpoint_url := attribute attrs ''endpoint_url'' PNone,
           aws_access_key_id := attribute attrs ''aws_access_key_id'' PNone,
           aws_secret_access_key := attribute attrs ''aws_secret_access_key'' PNone,
           region_name := attribute attrs ''region_name'' (PStr ''us-east-1''),
           signature_version := attribute attrs ''signature_version'' (PStr ''s3v4'') \<rparr>"


section \<open>Sample surroundings\<close>

text \<open>
  Four name services: one where the reference host and this host have different
  addresses, one where this host is the reference host, one where the reference host is
  unknown, and one where nothing resolves.
\<close>

definition lan_net :: network where
  "lan_net =
     \<lparr> gethostname = ''workstation'',
       gethostbyname = map_of [(MAC_HOSTNAME, ''10.0.0.5''), (''workstation'', ''10.0.0.9'')] \<rparr>"

definition home_net :: network where
  "home_net =
     \<lparr> gethostname = MAC_HOSTNAME, gethostbyname = map_of [(MAC_HOSTNAME, ''10.0.0.5'')] \<rparr>"

definition away_net :: network where
  "away_net =
     \<lparr> gethostname = ''workstation'', gethostbyname = map_of [(''workstation'', ''10.0.0.9'')] \<rparr>"

definition offline_net :: network where
  "offline_net = \<lparr> gethostname = ''workstation'', gethostbyname = map_of [] \<rparr>"

text \<open>A file system in which the configuration file exists and decodes as given.\<close>

definition fs_with :: "read_outcome \<Rightarrow> filesystem" where
  "fs_with outcome =
     \<lparr> path_exists = (\<lambda>p. True), parent = (\<lambda>p. ''.''), glob_json = (\<lambda>d. []),
       prompt_reply = No_input, json_of_file = (\<lambda>p. outcome) \<rparr>"

text \<open>
  A document with a complete profile, one without its secret key, an empty one, and one
  whose endpoint is a number; and the value of the text
  \<^verbatim>\<open>{"mac": {"endpoint_url": NaN}}\<close>.
\<close>

definition mac_profile :: "(string \<times> pyval) list" where
  "mac_profile =
     [(''endpoint_url'', PStr ''http://10.0.0.5:9000''),
      (''aws_access_key_id'', PStr ''minio''),
      (''aws_secret_access_key'', PStr ''minio123'')]"

definition nas_profile :: "(string \<times> pyval) list" where
  "nas_profile =
     [(''endpoint_url'', PStr ''http://10.0.0.7:9000''),
      (''aws_access_key_id'', PStr ''minio'')]"

definition odd_profile :: "(string \<times> pyval) list" where
  "odd_profile =
     [(''endpoint_url'', PInt 9000),
      (''aws_access_key_id'', PStr ''minio''),
      (''aws_secret_access_key'', PStr ''minio123'')]"

definition nan_document :: "(string \<times> pyval) list" where
  "nan_document =
     [(''mac'', PDict [(''endpoint_url'', PFloat 0x7FF8000000000000)])]"

definition sample_document :: "(string \<times> pyval) list" where
  "sample_document =
     [(''mac'', PDict mac_profile), (''nas'', PDict nas_profile),
      (''blank'', PDict []), (''odd'', PDict odd_profile)]"

definition loaded :: "(string \<times> pyval) list \<Rightarrow> MinioConfig" where
  "loaded document = (init ''minio_configs.json'')\<lparr>configs := PDict document\<rparr>"

text \<open>The object after the complete profile of the sample document has been selected.\<close>

definition selected_mac :: MinioConfig where
  "selected_mac = attributes_of_profile mac_profile (loaded sample_document)"


section \<open>Auxiliary facts\<close>

subsection \<open>Replacement in strings\<close>

lemma str_replace_ne_absent:
  "\<not> sublist old s \<Longrightarrow> str_replace_ne s old new = s"
  by (induction s) (auto simp: sublist_Cons_right)

lemma not_sublist_Cons:
  "\<not> sublist old seg \<Longrightarrow> \<not> prefix old (c # seg @ rest) \<Longrightarrow> \<not> sublist old (c # seg)"
  by (metis sublist_Cons_right prefix_prefix append_Cons)

lemma str_replace_ne_segments:
  "old \<noteq> [] \<Longrightarrow>
   \<exists>segs. segs \<noteq> [] \<and> s = str_join old segs \<and> (\<forall>seg\<in>set segs. \<not> sublist old seg)
          \<and> str_replace_ne s old new = str_join new segs"
proof (induction s old new rule: str_replace_ne.induct)
  case (1 old new)
  then have "[[]] \<noteq> [] \<and> [] = str_join old [[]] \<and> (\<forall>seg\<in>set [[]]. \<not> sublist old seg)
          \<and> str_replace_ne [] old new = str_join new [[]]"
    by simp
  then show ?case by blast
next
  case (2 c cs old new)
  show ?case
  proof (cases "prefix old (c # cs)")
    case True
    with 2 obtain segs where segs: "segs \<noteq> []" "drop (length old) (c # cs) = str_join old segs"
      "\<forall>seg\<in>set segs. \<not> sublist old seg"
      "str_replace_ne (drop (length old) (c # cs)) old new = str_join new segs"
      by blast
    from True have split: "c # cs = old @ drop (length old) (c # cs)"
      by (metis append_eq_conv_conj prefix_def)
    from segs(1) obtain y ys where ys: "segs = y # ys" by (cases segs) auto
    have "c # cs = str_join old ([] # segs)"
      using split segs(2) ys by simp
    moreover have "str_replace_ne (c # cs) old new = str_join new ([] # segs)"
      using True 2(3) segs(4) ys by simp
    moreover have "\<forall>seg\<in>set ([] # segs). \<not> sublist old seg"
      using segs(3) 2(3) by simp
    ultimately show ?thesis by blast
  next
    case False
    with 2 obtain segs where segs: "segs \<noteq> []" "cs = str_join old segs"
      "\<forall>seg\<in>set segs. \<not> sublist old seg"
      "str_replace_ne cs old new = str_join new segs"
      by blast
    from segs(1) obtain y ys where ys: "segs = y # ys" by (cases segs) auto
    have cs: "\<exists>rest. cs = y @ rest" using segs(2) ys by (cases ys) auto
    have "\<not> sublist old (c # y)"
      using cs False segs(3) ys 2(3) not_sublist_Cons by fastforce
    then have "\<forall>seg\<in>set ((c # y) # ys). \<not> sublist old seg"
      using segs(3) ys by simp
    moreover have "c # cs = str_join old ((c # y) # ys)"
      using segs(2) ys by (cases ys) auto
    moreover have "str_replace_ne (c # cs) old new = str_join new ((c # y) # ys)"
      using False segs(4) ys by (cases ys) auto
    ultimately show ?thesis by blast
  qed
qed

subsection \<open>The steps of a selection\<close>

lemma error_kinds_distinct:
  "NotLoadedError \<noteq> MissingAttributesError"
  "UnknownProfileError n \<noteq> MissingAttributesError"
  "NotLoadedError \<noteq> UnknownProfileError n"
  "MissingAttributesError \<noteq> gaierror"
  "MissingAttributesError \<noteq> AttributeError t a"
  by (simp_all add: NotLoadedError_def MissingAttributesError_def UnknownProfileError_def)

lemma set_connection_attributes_dict:
  "set_connection_attributes self (PDict attrs) =
     (validate_attributes (attributes_of_profile attrs self), attributes_of_profile attrs self)"
  by (simp add: set_connection_attributes_def attributes_of_profile_def attribute_def Let_def
           split: sum.split)

lemma validate_attributes_profile:
  "validate_attributes (attributes_of_profile attrs self) =
     (if truthy (attribute attrs ''endpoint_url'' PNone)
         \<and> truthy (attribute attrs ''aws_access_key_id'' PNone)
         \<and> truthy (attribute attrs ''aws_secret_access_key'' PNone)
      then Inr () else Inl MissingAttributesError)"
  by (simp add: validate_attributes_def attributes_of_profile_def)

lemma select_machine_dict:
  assumes "configs self = PDict document"
    and "map_of document machine_name = Some (PDict attrs)"
    and "attrs \<noteq> []"
  shows "select_machine net self machine_name =
     (case validate_attributes (attributes_of_profile attrs self) of
        Inl e \<Rightarrow> (Inl e, attributes_of_profile attrs self)
      | Inr u \<Rightarrow> adjust_endpoint_ip net (attributes_of_profile attrs self))"
proof -
  from assms(1,2) have "document \<noteq> []" by auto
  with assms show ?thesis
    by (simp add: select_machine_def ensure_configs_loaded_def get_machine_config_def
          set_connection_attributes_dict split: sum.split)
qed

lemma adjust_endpoint_ip_error:
  "fst (adjust_endpoint_ip net self) = Inl e \<Longrightarrow>
   e = gaierror \<or> (\<exists>t a. e = AttributeError t a)"
  by (cases "endpoint_url self")
     (auto simp: adjust_endpoint_ip_def get_mac_ip_def Let_def split: option.splits if_splits)

lemma Path_sample:
  "Path ''minio_configs.json'' = ''minio_configs.json''"
  by (simp add: Path_def)

lemma get_valid_config_path_error:
  "get_valid_config_path fs self = Inl err \<Longrightarrow> err \<noteq> ConfigFormatError path e"
  by (auto simp: get_valid_config_path_def prompt_for_config_file_def ConfigFormatError_def
        Let_def split: if_splits prompt_outcome.splits)


section \<open>Loading\<close>

text \<open>
  C1, as the specification has it: \<^verbatim>\<open>load_config\<close> fails with the format error exactly
  when the file's content is not valid JSON or is not an object of objects. The source
  checks neither: \<^verbatim>\<open>read_config\<close> returns whatever \<^verbatim>\<open>json.load\<close> decoded, and turns
  only \<^verbatim>\<open>json.JSONDecodeError\<close> into the format error.
  \<^item> A document that is a list, and a document whose profile is a string, are loaded
    without an error although neither is an object of objects.
  \<^item> The text \<^verbatim>\<open>{"mac": {"endpoint_url": NaN}}\<close> is not valid JSON; the decoder accepts
    it, and it is loaded without an error.
  \<^item> A file whose bytes are not text is not valid JSON either; reading it raises
    \<^verbatim>\<open>UnicodeDecodeError\<close>, which is not caught and is not the format error.
\<close>

theorem load_config_format_error_counterexample:
  "\<not> spec_object_of_objects (PList [])
   \<and> load_config (fs_with (Decoded (PList []))) (init ''minio_configs.json'')
       = (Inr (), (init ''minio_configs.json'')\<lparr>configs := PList []\<rparr>)
   \<and> \<not> spec_object_of_objects (PDict [(''mac'', PStr ''http://10.0.0.5:9000'')])
   \<and> load_config (fs_with (Decoded (PDict [(''mac'', PStr ''http://10.0.0.5:9000'')])))
         (init ''minio_configs.json'')
       = (Inr (), (init ''minio_configs.json'')
                    \<lparr>configs := PDict [(''mac'', PStr ''http://10.0.0.5:9000'')]\<rparr>)
   \<and> \<not> spec_valid_json_value (PDict nan_document)
   \<and> load_config (fs_with (Decoded (PDict nan_document))) (init ''minio_configs.json'')
       = (Inr (), (init ''minio_configs.json'')\<lparr>configs := PDict nan_document\<rparr>)
   \<and> load_config
         (fs_with (Read_failed
            '''utf-8' codec can't decode byte 0xff in position 9: invalid start byte''))
         (init ''minio_configs.json'')
       = (Inl (UnicodeDecodeError
                 '''utf-8' codec can't decode byte 0xff in position 9: invalid start byte''),
          init ''minio_configs.json'')"
  by (simp add: load_config_def get_valid_config_path_def read_config_def fs_with_def init_def
        Path_sample nan_document_def is_nan_def)

text \<open>
  C1, amended: \<^verbatim>\<open>load_config\<close> raises the format error exactly when the file it settled
  on can be opened and read as text and \<^verbatim>\<open>json.load\<close> raises
  \<^verbatim>\<open>json.JSONDecodeError\<close> on it. No other failure of the call is a format error: no
  file to choose from, a bad answer at the prompt, a file that cannot be opened, bytes that
  are not text (\<^verbatim>\<open>UnicodeDecodeError\<close>), an integer literal with too many digits (a plain
  \<^verbatim>\<open>ValueError\<close>), a nesting too deep (\<^verbatim>\<open>RecursionError\<close>); each leaves the call as
  the exception it is. Whenever the call fails, for whatever reason, \<open>configs\<close> is
  what it was before the call. A text the decoder accepts is stored as the value it decodes
  to, whatever that is.
\<close>

theorem load_config_format_error:
  "((\<exists>path e. fst (load_config fs self) = Inl (ConfigFormatError path e))
      \<longleftrightarrow> (\<exists>path e. get_valid_config_path fs self = Inr path
                    \<and> json_of_file fs path = Decode_failed e))
   \<and> (\<forall>err. fst (load_config fs self) = Inl err
            \<longrightarrow> configs (snd (load_config fs self)) = configs self)
   \<and> (\<forall>path v. get_valid_config_path fs self = Inr path \<longrightarrow> json_of_file fs path = Decoded v
            \<longrightarrow> load_config fs self = (Inr (), self\<lparr>config_file_path := path, configs := v\<rparr>))
   \<and> (\<forall>path. get_valid_config_path fs self = Inr path
            \<longrightarrow> fst (load_config fs self)
                 = (case json_of_file fs path of
                      Open_failed m \<Rightarrow> Inl (OSError m)
                    | Read_failed m \<Rightarrow> Inl (UnicodeDecodeError m)
                    | Decode_failed e \<Rightarrow> Inl (ConfigFormatError path e)
                    | Digits_exceeded m \<Rightarrow> Inl (ValueError (''Exceeds the limit ('' @ m))
                    | Nesting_exceeded m \<Rightarrow> Inl (RecursionError m)
                    | Decoded v \<Rightarrow> Inr ()))"
proof (cases "get_valid_config_path fs self")
  case (Inl err)
  then have "load_config fs self = (Inl err, self)"
    by (simp add: load_config_def)
  with Inl get_valid_config_path_error [OF Inl] show ?thesis
    by simp
next
  case (Inr p)
  show ?thesis
  proof (cases "json_of_file fs p")
    case (Open_failed m)
    with Inr have "load_config fs self = (Inl (OSError m), self\<lparr>config_file_path := p\<rparr>)"
      by (simp add: load_config_def read_config_def)
    with Inr Open_failed show ?thesis
      by (simp add: ConfigFormatError_def)
  next
    case (Read_failed m)
    with Inr
    have "load_config fs self = (Inl (UnicodeDecodeError m), self\<lparr>config_file_path := p\<rparr>)"
      by (simp add: load_config_def read_config_def)
    with Inr Read_failed show ?thesis
      by (simp add: ConfigFormatError_def)
  next
    case (Decode_failed e)
    with Inr
    have "load_config fs self = (Inl (ConfigFormatError p e), self\<lparr>config_file_path := p\<rparr>)"
      by (simp add: load_config_def read_config_def)
    with Inr Decode_failed show ?thesis
      by auto
  next
    case (Digits_exceeded m)
    with Inr
    have "load_config fs self
            = (Inl (ValueError (''Exceeds the limit ('' @ m)), self\<lparr>config_file_path := p\<rparr>)"
      by (simp add: load_config_def read_config_def)
    with Inr Digits_exceeded show ?thesis
      by (simp add: ConfigFormatError_def)
  next
    case (Nesting_exceeded m)
    with Inr
    have "load_config fs self = (Inl (RecursionError m), self\<lparr>config_file_path := p\<rparr>)"
      by (simp add: load_config_def read_config_def)
    with Inr Nesting_exceeded show ?thesis
      by (simp add: ConfigFormatError_def)
  next
    case (Decoded v)
    with Inr have "load_config fs self = (Inr (), self\<lparr>config_file_path := p, configs := v\<rparr>)"
      by (simp add: load_config_def read_config_def)
    with Inr Decoded show ?thesis
      by simp
  qed
qed

theorem load_config_format_error_witness:
  "get_valid_config_path (fs_with (Decode_failed ''Expecting value: line 1 column 1 (char 0)''))
       (loaded sample_document) = Inr ''minio_configs.json''
   \<and> json_of_file (fs_with (Decode_failed ''Expecting value: line 1 column 1 (char 0)''))
       ''minio_configs.json'' = Decode_failed ''Expecting value: line 1 column 1 (char 0)''
   \<and> fst (load_config (fs_with (Decode_failed ''Expecting value: line 1 column 1 (char 0)''))
            (loaded sample_document))
       = Inl (ConfigFormatError ''minio_configs.json'' ''Expecting value: line 1 column 1 (char 0)'')
   \<and> configs (snd (load_config (fs_with (Decode_failed ''Expecting value: line 1 column 1 (char 0)''))
                     (loaded sample_document)))
       = PDict sample_document"
proof -
  let ?fs = "fs_with (Decode_failed ''Expecting value: line 1 column 1 (char 0)'')"
  have h1: "get_valid_config_path ?fs (loaded sample_document) = Inr ''minio_configs.json''"
    by (simp add: get_valid_config_path_def fs_with_def loaded_def init_def Path_sample)
  have h2: "json_of_file ?fs ''minio_configs.json''
              = Decode_failed ''Expecting value: line 1 column 1 (char 0)''"
    by (simp add: fs_with_def)
  have f: "fst (load_config ?fs (loaded sample_document))
       = Inl (ConfigFormatError ''minio_configs.json'' ''Expecting value: line 1 column 1 (char 0)'')"
    by (simp add: load_config_def h1 read_config_def h2)
  have c: "configs (loaded sample_document) = PDict sample_document"
    by (simp add: loaded_def)
  from load_config_format_error [of ?fs "loaded sample_document"] f
  have "configs (snd (load_config ?fs (loaded sample_document))) = configs (loaded sample_document)"
    by blast
  with h1 h2 f c show ?thesis by simp
qed

text \<open>
  C10. After \<^verbatim>\<open>load_config\<close> has succeeded on a document that is the empty object,
  \<open>configs\<close> is the empty dict, and both \<^verbatim>\<open>select_machine\<close> (for any name, on any
  network) and \<^verbatim>\<open>list_machines\<close> raise the not-loaded error, as they do on an object
  that never loaded anything. The failing call leaves the object as it was, so every later
  call finds the same state and fails the same way.
\<close>

theorem empty_document_counts_as_not_loaded:
  assumes "get_valid_config_path fs self = Inr path"
    and "json_of_file fs path = Decoded (PDict [])"
  shows "fst (load_config fs self) = Inr ()
     \<and> configs (snd (load_config fs self)) = PDict []
     \<and> select_machine net (snd (load_config fs self)) machine_name
         = (Inl NotLoadedError, snd (load_config fs self))
     \<and> list_machines (snd (load_config fs self)) = Inl NotLoadedError
     \<and> fst (select_machine net (snd (load_config fs self)) machine_name)
         = fst (select_machine net (init (config_file_path self)) machine_name)"
  using assms
  by (simp add: load_config_def read_config_def select_machine_def ensure_configs_loaded_def
        list_machines_def init_def Path_sample)

theorem empty_document_counts_as_not_loaded_witness:
  "get_valid_config_path (fs_with (Decoded (PDict []))) (init ''minio_configs.json'')
     = Inr ''minio_configs.json''
   \<and> json_of_file (fs_with (Decoded (PDict []))) ''minio_configs.json'' = Decoded (PDict [])
   \<and> fst (load_config (fs_with (Decoded (PDict []))) (init ''minio_configs.json'')) = Inr ()
   \<and> select_machine lan_net (snd (load_config (fs_with (Decoded (PDict []))) (init ''minio_configs.json''))) ''mac''
       = (Inl NotLoadedError, loaded [])
   \<and> list_machines (snd (load_config (fs_with (Decoded (PDict []))) (init ''minio_configs.json'')))
       = Inl NotLoadedError"
proof -
  let ?fs = "fs_with (Decoded (PDict []))" and ?self = "init ''minio_configs.json''"
  have h1: "get_valid_config_path ?fs ?self = Inr ''minio_configs.json''"
    by (simp add: get_valid_config_path_def fs_with_def init_def Path_sample)
  have h2: "json_of_file ?fs ''minio_configs.json'' = Decoded (PDict [])"
    by (simp add: fs_with_def)
  have s: "snd (load_config ?fs ?self) = loaded []"
    by (simp add: load_config_def get_valid_config_path_def read_config_def fs_with_def
          loaded_def init_def Path_sample)
  from h1 h2 s empty_document_counts_as_not_loaded [OF h1 h2, of lan_net "''mac''"]
  show ?thesis by simp
qed


section \<open>Selection before loading\<close>

text \<open>
  C8. In every state of the object in which no configuration has been loaded
  (\<open>configs\<close> still holds the \<^verbatim>\<open>None\<close> that \<^verbatim>\<open>__init__\<close> put there),
  \<^verbatim>\<open>select_machine\<close> raises the not-loaded error for any machine name and any state of
  the network, and leaves the object as it was.
\<close>

theorem select_machine_before_load:
  "configs self = PNone \<Longrightarrow>
   select_machine net self machine_name = (Inl NotLoadedError, self)"
  by (simp add: select_machine_def ensure_configs_loaded_def)

theorem select_machine_before_load_witness:
  "configs (init ''minio_configs.json'') = PNone
   \<and> select_machine lan_net (init ''minio_configs.json'') ''mac''
       = (Inl NotLoadedError, init ''minio_configs.json'')"
proof -
  have h: "configs (init ''minio_configs.json'') = PNone"
    by (simp add: init_def Path_sample)
  from h select_machine_before_load [OF h] show ?thesis
    by simp
qed


section \<open>Selection from a loaded document\<close>

text \<open>
  C4, as the specification has it: for every loaded document, selecting a name that is
  absent fails with the unknown-profile error. The document that is the empty object is a
  loaded document in which every name is absent, and there the call raises the not-loaded
  error instead: \<^verbatim>\<open>ensure_configs_loaded\<close> tests the truth value of \<open>configs\<close>.
\<close>

theorem select_machine_unknown_counterexample:
  "configs (loaded []) = PDict [] \<and> map_of ([] :: (string \<times> pyval) list) ''mac'' = None
   \<and> select_machine lan_net (loaded []) ''mac'' = (Inl NotLoadedError, loaded [])
   \<and> NotLoadedError \<noteq> UnknownProfileError ''mac''"
  by (simp add: loaded_def select_machine_def ensure_configs_loaded_def
        NotLoadedError_def UnknownProfileError_def)

text \<open>
  C4, amended: for every loaded document with at least one profile, selecting a name that
  is absent from it, or whose value in it is falsy (\<^verbatim>\<open>null\<close>, an empty object, an empty
  string, zero, \<^verbatim>\<open>false\<close>, an empty list), raises the unknown-profile error naming the
  machine, on any network, and leaves the object as it was.
\<close>

theorem select_machine_unknown:
  assumes "configs self = PDict document" and "document \<noteq> []"
    and "case map_of document machine_name of None \<Rightarrow> True | Some v \<Rightarrow> \<not> truthy v"
  shows "select_machine net self machine_name
           = (Inl (UnknownProfileError machine_name), self)"
  using assms
  by (simp add: select_machine_def ensure_configs_loaded_def get_machine_config_def
        split: option.splits)

theorem select_machine_unknown_witness:
  "configs (loaded sample_document) = PDict sample_document \<and> sample_document \<noteq> []
   \<and> map_of sample_document ''laptop'' = None
   \<and> select_machine lan_net (loaded sample_document) ''laptop''
       = (Inl (UnknownProfileError ''laptop''), loaded sample_document)
   \<and> map_of sample_document ''blank'' = Some (PDict []) \<and> \<not> truthy (PDict [])
   \<and> select_machine lan_net (loaded sample_document) ''blank''
       = (Inl (UnknownProfileError ''blank''), loaded sample_document)"
proof -
  have h1: "configs (loaded sample_document) = PDict sample_document"
    by (simp add: loaded_def)
  have h2: "sample_document \<noteq> []"
    by (simp add: sample_document_def)
  have a: "map_of sample_document ''laptop'' = None"
    by (simp add: sample_document_def)
  have b: "map_of sample_document ''blank'' = Some (PDict [])"
    by (simp add: sample_document_def)
  have h3: "case map_of sample_document ''laptop'' of None \<Rightarrow> True | Some v \<Rightarrow> \<not> truthy v"
    by (simp add: a)
  have h4: "case map_of sample_document ''blank'' of None \<Rightarrow> True | Some v \<Rightarrow> \<not> truthy v"
    by (simp add: b)
  from h1 h2 a b select_machine_unknown [OF h1 h2 h3] select_machine_unknown [OF h1 h2 h4]
  show ?thesis by simp
qed

text \<open>
  C5, as the specification has it: for every present profile in which one of the three
  required attributes is absent or is not a non-empty string, the selection fails with the
  missing-attributes error. \<^verbatim>\<open>validate_attributes\<close> tests truth values, not types: a
  profile whose endpoint is the number 9000 is selected without an error (here on a network
  where the reference host is unknown). And a present profile that has no attribute at all
  is an empty dict, which \<^verbatim>\<open>get_machine_config\<close> rejects first, with the unknown-profile
  error.
\<close>

theorem select_machine_missing_attributes_counterexample:
  "map_of sample_document ''odd'' = Some (PDict odd_profile)
   \<and> attribute odd_profile ''endpoint_url'' PNone = PInt 9000
   \<and> fst (select_machine away_net (loaded sample_document) ''odd'') = Inr ()
   \<and> map_of sample_document ''blank'' = Some (PDict [])
   \<and> attribute [] ''endpoint_url'' PNone = PNone
   \<and> fst (select_machine lan_net (loaded sample_document) ''blank'')
       = Inl (UnknownProfileError ''blank'')
   \<and> UnknownProfileError ''blank'' \<noteq> MissingAttributesError"
  by (simp add: loaded_def sample_document_def odd_profile_def attribute_def
        select_machine_def ensure_configs_loaded_def get_machine_config_def
        set_connection_attributes_def validate_attributes_def adjust_endpoint_ip_def
        get_mac_ip_def away_net_def MAC_HOSTNAME_def
        UnknownProfileError_def MissingAttributesError_def)

text \<open>
  C5, amended: for every loaded document and every profile of it that is a non-empty
  object, if one of the three required attributes is absent or falsy (\<^verbatim>\<open>null\<close>, an empty
  string, zero, \<^verbatim>\<open>false\<close>, an empty list or object), the selection raises the
  missing-attributes error, on any network.
\<close>

theorem select_machine_missing_attributes:
  assumes "configs self = PDict document"
    and "map_of document machine_name = Some (PDict attrs)" and "attrs \<noteq> []"
    and "\<not> (truthy (attribute attrs ''endpoint_url'' PNone)
           \<and> truthy (attribute attrs ''aws_access_key_id'' PNone)
           \<and> truthy (attribute attrs ''aws_secret_access_key'' PNone))"
  shows "fst (select_machine net self machine_name) = Inl MissingAttributesError"
proof -
  from assms(4)
  have "validate_attributes (attributes_of_profile attrs self) = Inl MissingAttributesError"
    unfolding validate_attributes_profile by (rule if_not_P)
  then show ?thesis
    by (simp add: select_machine_dict [OF assms(1,2,3)])
qed

theorem select_machine_missing_attributes_witness:
  "configs (loaded sample_document) = PDict sample_document
   \<and> map_of sample_document ''nas'' = Some (PDict nas_profile) \<and> nas_profile \<noteq> []
   \<and> attribute nas_profile ''aws_secret_access_key'' PNone = PNone
   \<and> fst (select_machine lan_net (loaded sample_document) ''nas'') = Inl MissingAttributesError"
proof -
  have h1: "configs (loaded sample_document) = PDict sample_document"
    by (simp add: loaded_def)
  have h2: "map_of sample_document ''nas'' = Some (PDict nas_profile)"
    by (simp add: sample_document_def)
  have h3: "nas_profile \<noteq> []"
    by (simp add: nas_profile_def)
  have a: "attribute nas_profile ''aws_secret_access_key'' PNone = PNone"
    by (simp add: attribute_def nas_profile_def)
  have h4: "\<not> (truthy (attribute nas_profile ''endpoint_url'' PNone)
           \<and> truthy (attribute nas_profile ''aws_access_key_id'' PNone)
           \<and> truthy (attribute nas_profile ''aws_secret_access_key'' PNone))"
    by (simp add: a)
  from h1 h2 h3 a select_machine_missing_attributes [OF h1 h2 h3 h4]
  show ?thesis by simp
qed

text \<open>
  C3, as the specification has it: selecting a present profile whose three required
  attributes are non-empty strings succeeds, and the five attributes of the object equal the
  profile's values. The selection ends with the endpoint adjustment: where the reference
  host and this host have different addresses, the endpoint of the sample profile is
  rewritten and differs from the profile's value; where this host's name does not resolve,
  the selection raises \<^verbatim>\<open>socket.gaierror\<close>.
\<close>

theorem select_machine_complete_profile_counterexample:
  "map_of sample_document ''mac'' = Some (PDict mac_profile)
   \<and> map_of mac_profile ''endpoint_url'' = Some (PStr ''http://10.0.0.5:9000'')
   \<and> map_of mac_profile ''aws_access_key_id'' = Some (PStr ''minio'')
   \<and> map_of mac_profile ''aws_secret_access_key'' = Some (PStr ''minio123'')
   \<and> endpoint_url (snd (select_machine lan_net (loaded sample_document) ''mac''))
       = PStr ''http://10.0.0.9:9000''
   \<and> PStr ''http://10.0.0.9:9000'' \<noteq> PStr ''http://10.0.0.5:9000''
   \<and> fst (select_machine offline_net (loaded sample_document) ''mac'') = Inl gaierror"
  by (simp add: loaded_def sample_document_def mac_profile_def
        select_machine_def ensure_configs_loaded_def get_machine_config_def
        set_connection_attributes_def validate_attributes_def adjust_endpoint_ip_def
        get_mac_ip_def lan_net_def offline_net_def MAC_HOSTNAME_def str_replace_def)

text \<open>
  C3, amended: for every loaded document and every profile of it whose \<^verbatim>\<open>endpoint_url\<close>,
  \<^verbatim>\<open>aws_access_key_id\<close> and \<^verbatim>\<open>aws_secret_access_key\<close> are non-empty strings, on every
  network on which this host's name resolves, the selection succeeds; the two keys equal
  the profile's values, \<^verbatim>\<open>region_name\<close> and \<^verbatim>\<open>signature_version\<close> equal the profile's
  values, or \<^verbatim>\<open>us-east-1\<close> and \<^verbatim>\<open>s3v4\<close> where the profile omits them; and the endpoint
  is the profile's endpoint after adjustment: the profile's value with the reference
  address replaced by this host's address when the reference host resolves to a different
  address, the profile's value itself otherwise. When the reference host does not
  resolve, resolves to this host's address, or its address does not occur in the endpoint,
  all five attributes are those of the profile with its defaults.
\<close>

theorem select_machine_complete_profile:
  assumes "configs self = PDict document"
    and "map_of document machine_name = Some (PDict attrs)"
    and "map_of attrs ''endpoint_url'' = Some (PStr url)" and "url \<noteq> []"
    and "map_of attrs ''aws_access_key_id'' = Some (PStr key)" and "key \<noteq> []"
    and "map_of attrs ''aws_secret_access_key'' = Some (PStr secret)" and "secret \<noteq> []"
    and "gethostbyname net (gethostname net) = Some cur"
  shows "fst (select_machine net self machine_name) = Inr ()
     \<and> endpoint_url (snd (select_machine net self machine_name))
         = PStr (case gethostbyname net MAC_HOSTNAME of
                   None \<Rightarrow> url
                 | Some mac \<Rightarrow> if mac \<noteq> [] \<and> cur \<noteq> mac then str_replace url mac cur else url)
     \<and> aws_access_key_id (snd (select_machine net self machine_name)) = PStr key
     \<and> aws_secret_access_key (snd (select_machine net self machine_name)) = PStr secret
     \<and> region_name (snd (select_machine net self machine_name))
         = (case map_of attrs ''region_name'' of None \<Rightarrow> PStr ''us-east-1'' | Some v \<Rightarrow> v)
     \<and> signature_version (snd (select_machine net self machine_name))
         = (case map_of attrs ''signature_version'' of None \<Rightarrow> PStr ''s3v4'' | Some v \<Rightarrow> v)
     \<and> ((gethostbyname net MAC_HOSTNAME = None \<or> gethostbyname net MAC_HOSTNAME = Some cur
          \<or> (\<exists>mac. gethostbyname net MAC_HOSTNAME = Some mac \<and> \<not> sublist mac url))
        \<longrightarrow> select_machine net self machine_name = (Inr (), attributes_of_profile attrs self))"
proof -
  let ?self1 = "attributes_of_profile attrs self"
  from assms(3) have ne: "attrs \<noteq> []" by auto
  have valid: "validate_attributes ?self1 = Inr ()"
    using assms(3-8) by (simp add: validate_attributes_profile attribute_def)
  have sel: "select_machine net self machine_name = adjust_endpoint_ip net ?self1"
    by (simp add: select_machine_dict [OF assms(1,2) ne] valid)
  have url: "endpoint_url ?self1 = PStr url"
    using assms(3) by (simp add: attributes_of_profile_def attribute_def)
  have fields: "aws_access_key_id ?self1 = PStr key" "aws_secret_access_key ?self1 = PStr secret"
    "region_name ?self1 = (case map_of attrs ''region_name'' of None \<Rightarrow> PStr ''us-east-1'' | Some v \<Rightarrow> v)"
    "signature_version ?self1 = (case map_of attrs ''signature_version'' of None \<Rightarrow> PStr ''s3v4'' | Some v \<Rightarrow> v)"
    using assms(5,7) by (simp_all add: attributes_of_profile_def attribute_def)
  have adj: "adjust_endpoint_ip net ?self1 =
      (Inr (), ?self1\<lparr>endpoint_url := PStr (case gethostbyname net MAC_HOSTNAME of
                   None \<Rightarrow> url
                 | Some mac \<Rightarrow> if mac \<noteq> [] \<and> cur \<noteq> mac then str_replace url mac cur else url)\<rparr>)"
    using assms(4,9) url
    by (simp add: adjust_endpoint_ip_def get_mac_ip_def split: option.split)
  have same: "(gethostbyname net MAC_HOSTNAME = None \<or> gethostbyname net MAC_HOSTNAME = Some cur
          \<or> (\<exists>mac. gethostbyname net MAC_HOSTNAME = Some mac \<and> \<not> sublist mac url))
        \<longrightarrow> adjust_endpoint_ip net ?self1 = (Inr (), ?self1)"
    using url unfolding adj
    by (auto simp: str_replace_def str_replace_ne_absent)
  from adj fields same show ?thesis
    unfolding sel by simp
qed

theorem select_machine_complete_profile_witness:
  "configs (loaded sample_document) = PDict sample_document
   \<and> map_of sample_document ''mac'' = Some (PDict mac_profile)
   \<and> map_of mac_profile ''endpoint_url'' = Some (PStr ''http://10.0.0.5:9000'')
   \<and> map_of mac_profile ''aws_access_key_id'' = Some (PStr ''minio'')
   \<and> map_of mac_profile ''aws_secret_access_key'' = Some (PStr ''minio123'')
   \<and> map_of mac_profile ''region_name'' = None
   \<and> map_of mac_profile ''signature_version'' = None
   \<and> gethostbyname lan_net (gethostname lan_net) = Some ''10.0.0.9''
   \<and> gethostbyname lan_net MAC_HOSTNAME = Some ''10.0.0.5''
   \<and> fst (select_machine lan_net (loaded sample_document) ''mac'') = Inr ()
   \<and> endpoint_url (snd (select_machine lan_net (loaded sample_document) ''mac''))
       = PStr ''http://10.0.0.9:9000''
   \<and> aws_access_key_id (snd (select_machine lan_net (loaded sample_document) ''mac''))
       = PStr ''minio''
   \<and> aws_secret_access_key (snd (select_machine lan_net (loaded sample_document) ''mac''))
       = PStr ''minio123''
   \<and> region_name (snd (select_machine lan_net (loaded sample_document) ''mac''))
       = PStr ''us-east-1''
   \<and> signature_version (snd (select_machine lan_net (loaded sample_document) ''mac''))
       = PStr ''s3v4''"
proof -
  have h1: "configs (loaded sample_document) = PDict sample_document"
    by (simp add: loaded_def)
  have h2: "map_of sample_document ''mac'' = Some (PDict mac_profile)"
    by (simp add: sample_document_def)
  have h3: "map_of mac_profile ''endpoint_url'' = Some (PStr ''http://10.0.0.5:9000'')"
    by (simp add: mac_profile_def)
  have h4: "''http://10.0.0.5:9000'' \<noteq> ''''" by simp
  have h5: "map_of mac_profile ''aws_access_key_id'' = Some (PStr ''minio'')"
    by (simp add: mac_profile_def)
  have h6: "''minio'' \<noteq> ''''" by simp
  have h7: "map_of mac_profile ''aws_secret_access_key'' = Some (PStr ''minio123'')"
    by (simp add: mac_profile_def)
  have h8: "''minio123'' \<noteq> ''''" by simp
  have h9: "gethostbyname lan_net (gethostname lan_net) = Some ''10.0.0.9''"
    by (simp add: lan_net_def MAC_HOSTNAME_def)
  have d: "map_of mac_profile ''region_name'' = None"
    "map_of mac_profile ''signature_version'' = None"
    by (simp_all add: mac_profile_def)
  have m: "gethostbyname lan_net MAC_HOSTNAME = Some ''10.0.0.5''"
    by (simp add: lan_net_def)
  have r: "str_replace ''http://10.0.0.5:9000'' ''10.0.0.5'' ''10.0.0.9'' = ''http://10.0.0.9:9000''"
    by (simp add: str_replace_def)
  from h1 h2 h3 h5 h7 h9 d m r
    select_machine_complete_profile [OF h1 h2 h3 h4 h5 h6 h7 h8 h9]
  show ?thesis by simp
qed

text \<open>
  C9. Selection is not atomic. For every loaded document and every profile of it that is an
  object, \<^verbatim>\<open>select_machine\<close> raises the missing-attributes error exactly when the profile
  is non-empty and one of its three required attributes is absent or falsy; and whenever
  it raises that error, the five connection attributes of the object have already been
  overwritten with the values of the failing profile (\<^verbatim>\<open>None\<close> for a missing required
  key, the default for a missing optional key), everything else being as before. In the
  sample, the connection resolved for the complete profile is gone after the failed
  selection of the profile without a secret key.
\<close>

theorem select_machine_not_atomic:
  assumes "configs self = PDict document"
    and "map_of document machine_name = Some (PDict attrs)"
  shows "(fst (select_machine net self machine_name) = Inl MissingAttributesError
          \<longleftrightarrow> attrs \<noteq> [] \<and> \<not> (truthy (attribute attrs ''endpoint_url'' PNone)
                           \<and> truthy (attribute attrs ''aws_access_key_id'' PNone)
                           \<and> truthy (attribute attrs ''aws_secret_access_key'' PNone)))
     \<and> (fst (select_machine net self machine_name) = Inl MissingAttributesError
        \<longrightarrow> snd (select_machine net self machine_name) = attributes_of_profile attrs self)"
proof (cases "attrs = []")
  case True
  from assms(1,2) have "document \<noteq> []" by auto
  with assms True
  have "select_machine net self machine_name = (Inl (UnknownProfileError machine_name), self)"
    by (simp add: select_machine_def ensure_configs_loaded_def get_machine_config_def)
  with True show ?thesis
    by (simp add: error_kinds_distinct)
next
  case False
  note sel = select_machine_dict [OF assms False]
  show ?thesis
  proof (cases "validate_attributes (attributes_of_profile attrs self)")
    case (Inl e)
    then have "e = MissingAttributesError"
      "\<not> (truthy (attribute attrs ''endpoint_url'' PNone)
           \<and> truthy (attribute attrs ''aws_access_key_id'' PNone)
           \<and> truthy (attribute attrs ''aws_secret_access_key'' PNone))"
      unfolding validate_attributes_profile by (auto split: if_splits)
    with Inl False show ?thesis
      by (simp add: sel)
  next
    case (Inr u)
    then have ok: "truthy (attribute attrs ''endpoint_url'' PNone)
           \<and> truthy (attribute attrs ''aws_access_key_id'' PNone)
           \<and> truthy (attribute attrs ''aws_secret_access_key'' PNone)"
      unfolding validate_attributes_profile by (auto split: if_splits)
    have "fst (adjust_endpoint_ip net (attributes_of_profile attrs self)) \<noteq> Inl MissingAttributesError"
      using adjust_endpoint_ip_error [of net "attributes_of_profile attrs self" MissingAttributesError]
      by (auto simp: error_kinds_distinct)
    with Inr ok show ?thesis
      by (simp add: sel)
  qed
qed

theorem select_machine_not_atomic_witness:
  "configs selected_mac = PDict sample_document
   \<and> map_of sample_document ''nas'' = Some (PDict nas_profile)
   \<and> endpoint_url selected_mac = PStr ''http://10.0.0.5:9000''
   \<and> aws_secret_access_key selected_mac = PStr ''minio123''
   \<and> fst (select_machine lan_net selected_mac ''nas'') = Inl MissingAttributesError
   \<and> endpoint_url (snd (select_machine lan_net selected_mac ''nas'')) = PStr ''http://10.0.0.7:9000''
   \<and> aws_access_key_id (snd (select_machine lan_net selected_mac ''nas'')) = PStr ''minio''
   \<and> aws_secret_access_key (snd (select_machine lan_net selected_mac ''nas'')) = PNone
   \<and> region_name (snd (select_machine lan_net selected_mac ''nas'')) = PStr ''us-east-1''
   \<and> signature_version (snd (select_machine lan_net selected_mac ''nas'')) = PStr ''s3v4''"
proof -
  have h1: "configs selected_mac = PDict sample_document"
    by (simp add: selected_mac_def attributes_of_profile_def loaded_def)
  have h2: "map_of sample_document ''nas'' = Some (PDict nas_profile)"
    by (simp add: sample_document_def)
  have before: "endpoint_url selected_mac = PStr ''http://10.0.0.5:9000''"
    "aws_secret_access_key selected_mac = PStr ''minio123''"
    by (simp_all add: selected_mac_def attributes_of_profile_def attribute_def mac_profile_def)
  have a: "nas_profile \<noteq> []"
    "attribute nas_profile ''endpoint_url'' PNone = PStr ''http://10.0.0.7:9000''"
    "attribute nas_profile ''aws_access_key_id'' PNone = PStr ''minio''"
    "attribute nas_profile ''aws_secret_access_key'' PNone = PNone"
    "attribute nas_profile ''region_name'' (PStr ''us-east-1'') = PStr ''us-east-1''"
    "attribute nas_profile ''signature_version'' (PStr ''s3v4'') = PStr ''s3v4''"
    by (simp_all add: attribute_def nas_profile_def)
  from select_machine_not_atomic [OF h1 h2, of lan_net] a
  have "fst (select_machine lan_net selected_mac ''nas'') = Inl MissingAttributesError"
    and "snd (select_machine lan_net selected_mac ''nas'')
           = attributes_of_profile nas_profile selected_mac"
    by simp_all
  with h1 h2 before a show ?thesis
    by (simp add: attributes_of_profile_def)
qed


section \<open>Endpoint adjustment\<close>

text \<open>
  C6. Whenever the reference host and the current host resolve to the same address,
  \<^verbatim>\<open>adjust_endpoint_ip\<close> returns normally and leaves the object, and so its endpoint
  URL, unchanged, whatever the endpoint URL is.
\<close>

theorem adjust_endpoint_ip_same_address:
  "gethostbyname net MAC_HOSTNAME = Some ip \<Longrightarrow>
   gethostbyname net (gethostname net) = Some ip \<Longrightarrow>
   adjust_endpoint_ip net self = (Inr (), self)
   \<and> endpoint_url (snd (adjust_endpoint_ip net self)) = endpoint_url self"
  by (simp add: adjust_endpoint_ip_def get_mac_ip_def)

theorem adjust_endpoint_ip_same_address_witness:
  "gethostbyname home_net MAC_HOSTNAME = Some ''10.0.0.5''
   \<and> gethostbyname home_net (gethostname home_net) = Some ''10.0.0.5''
   \<and> adjust_endpoint_ip home_net selected_mac = (Inr (), selected_mac)"
proof -
  have h1: "gethostbyname home_net MAC_HOSTNAME = Some ''10.0.0.5''"
    by (simp add: home_net_def)
  have h2: "gethostbyname home_net (gethostname home_net) = Some ''10.0.0.5''"
    by (simp add: home_net_def)
  from h1 h2 adjust_endpoint_ip_same_address [OF h1 h2] show ?thesis
    by simp
qed

text \<open>
  C7. A failure to resolve the reference host raises nothing: when this host's name
  resolves, \<^verbatim>\<open>adjust_endpoint_ip\<close> returns normally with the object, and so the
  endpoint, untouched. A failure to resolve this host's own name always propagates as
  \<^verbatim>\<open>socket.gaierror\<close>, the object again untouched. And with an endpoint that is a string
  (or not set), that is the only error the adjustment can raise.
\<close>

theorem adjust_endpoint_ip_resolution_failures:
  "(gethostbyname net MAC_HOSTNAME = None \<longrightarrow>
      (\<exists>cur. gethostbyname net (gethostname net) = Some cur) \<longrightarrow>
      adjust_endpoint_ip net self = (Inr (), self))
   \<and> (gethostbyname net (gethostname net) = None \<longrightarrow>
        adjust_endpoint_ip net self = (Inl gaierror, self))
   \<and> ((endpoint_url self = PNone \<or> (\<exists>url. endpoint_url self = PStr url)) \<longrightarrow>
        fst (adjust_endpoint_ip net self) = Inl e \<longrightarrow>
        e = gaierror \<and> gethostbyname net (gethostname net) = None)"
  by (auto simp: adjust_endpoint_ip_def get_mac_ip_def Let_def split: option.splits if_splits)

theorem adjust_endpoint_ip_resolution_failures_witness:
  "gethostbyname away_net MAC_HOSTNAME = None
   \<and> gethostbyname away_net (gethostname away_net) = Some ''10.0.0.9''
   \<and> adjust_endpoint_ip away_net (attributes_of_profile mac_profile (loaded sample_document))
       = (Inr (), attributes_of_profile mac_profile (loaded sample_document))
   \<and> gethostbyname offline_net (gethostname offline_net) = None
   \<and> adjust_endpoint_ip offline_net (attributes_of_profile mac_profile (loaded sample_document))
       = (Inl gaierror, attributes_of_profile mac_profile (loaded sample_document))"
proof -
  let ?self = "attributes_of_profile mac_profile (loaded sample_document)"
  have h1: "gethostbyname away_net MAC_HOSTNAME = None"
    by (simp add: away_net_def MAC_HOSTNAME_def)
  have h2: "gethostbyname away_net (gethostname away_net) = Some ''10.0.0.9''"
    by (simp add: away_net_def)
  have h3: "gethostbyname offline_net (gethostname offline_net) = None"
    by (simp add: offline_net_def)
  from h1 h2 h3
    adjust_endpoint_ip_resolution_failures [of away_net ?self]
    adjust_endpoint_ip_resolution_failures [of offline_net ?self]
  show ?thesis by simp
qed

text \<open>
  C2. For every endpoint URL that is a string, every reference address (a non-empty
  string) and every different current address, \<^verbatim>\<open>adjust_endpoint_ip\<close> returns normally
  and sets the endpoint to the result of \<^verbatim>\<open>url.replace(mac_ip, current_ip)\<close>. That
  result replaces every occurrence: the URL is a sequence of pieces with the reference
  address between each two, no piece contains the reference address any more, and the
  result is the same pieces with the current address between them. When the reference
  address does not occur in the URL, the object is returned unchanged, without an error.
  The sample is the one of the specification: \<^verbatim>\<open>http://10.0.0.5:9000\<close> becomes
  \<^verbatim>\<open>http://10.0.0.9:9000\<close>.
\<close>

theorem adjust_endpoint_ip_replaces:
  assumes "endpoint_url self = PStr url"
    and "gethostbyname net MAC_HOSTNAME = Some mac" and "mac \<noteq> []"
    and "gethostbyname net (gethostname net) = Some cur" and "cur \<noteq> mac"
  shows "adjust_endpoint_ip net self
           = (Inr (), self\<lparr>endpoint_url := PStr (str_replace url mac cur)\<rparr>)
     \<and> (\<exists>segs. url = str_join mac segs \<and> (\<forall>seg\<in>set segs. \<not> sublist mac seg)
               \<and> str_replace url mac cur = str_join cur segs)
     \<and> (\<not> sublist mac url \<longrightarrow> adjust_endpoint_ip net self = (Inr (), self))"
proof -
  have run: "adjust_endpoint_ip net self
               = (Inr (), self\<lparr>endpoint_url := PStr (str_replace url mac cur)\<rparr>)"
  proof (cases "url = []")
    case True
    with assms have "adjust_endpoint_ip net self = (Inr (), self)"
      by (simp add: adjust_endpoint_ip_def get_mac_ip_def)
    moreover have "self\<lparr>endpoint_url := PStr (str_replace url mac cur)\<rparr> = self"
      using True assms(1,3) by (simp add: str_replace_def)
    ultimately show ?thesis by simp
  next
    case False
    with assms show ?thesis
      by (simp add: adjust_endpoint_ip_def get_mac_ip_def)
  qed
  have segs: "\<exists>segs. url = str_join mac segs \<and> (\<forall>seg\<in>set segs. \<not> sublist mac seg)
               \<and> str_replace url mac cur = str_join cur segs"
    using str_replace_ne_segments [OF assms(3), of url cur] assms(3)
    by (auto simp: str_replace_def)
  have absent: "\<not> sublist mac url \<longrightarrow> adjust_endpoint_ip net self = (Inr (), self)"
  proof
    assume "\<not> sublist mac url"
    then have "str_replace url mac cur = url"
      using assms(3) by (simp add: str_replace_def str_replace_ne_absent)
    with run assms(1) show "adjust_endpoint_ip net self = (Inr (), self)"
      by simp
  qed
  from run segs absent show ?thesis by blast
qed

theorem adjust_endpoint_ip_replaces_witness:
  "endpoint_url (attributes_of_profile mac_profile (loaded sample_document))
     = PStr ''http://10.0.0.5:9000''
   \<and> gethostbyname lan_net MAC_HOSTNAME = Some ''10.0.0.5'' \<and> ''10.0.0.5'' \<noteq> ''''
   \<and> gethostbyname lan_net (gethostname lan_net) = Some ''10.0.0.9''
   \<and> ''10.0.0.9'' \<noteq> ''10.0.0.5''
   \<and> adjust_endpoint_ip lan_net (attributes_of_profile mac_profile (loaded sample_document))
       = (Inr (), (attributes_of_profile mac_profile (loaded sample_document))
                    \<lparr>endpoint_url := PStr ''http://10.0.0.9:9000''\<rparr>)"
proof -
  let ?self = "attributes_of_profile mac_profile (loaded sample_document)"
  have h1: "endpoint_url ?self = PStr ''http://10.0.0.5:9000''"
    by (simp add: attributes_of_profile_def attribute_def mac_profile_def)
  have h2: "gethostbyname lan_net MAC_HOSTNAME = Some ''10.0.0.5''"
    by (simp add: lan_net_def)
  have h3: "''10.0.0.5'' \<noteq> ''''" by simp
  have h4: "gethostbyname lan_net (gethostname lan_net) = Some ''10.0.0.9''"
    by (simp add: lan_net_def MAC_HOSTNAME_def)
  have h5: "''10.0.0.9'' \<noteq> ''10.0.0.5''" by simp
  have r: "str_replace ''http://10.0.0.5:9000'' ''10.0.0.5'' ''10.0.0.9'' = ''http://10.0.0.9:9000''"
    by (simp add: str_replace_def)
  from adjust_endpoint_ip_replaces [OF h1 h2 h3 h4 h5]
  have "adjust_endpoint_ip lan_net ?self
          = (Inr (), ?self\<lparr>endpoint_url := PStr ''http://10.0.0.9:9000''\<rparr>)"
    unfolding r by blast
  with h1 h2 h3 h4 h5 show ?thesis by blast
qed

end
